theory Spec2Isabelle
  imports Main "HOL-Library.Sublist" "HOL-Library.Char_ord" "HOL-Library.List_Lexorder"
begin

section \<open>Vendor master dashboard: values, rows and the field extractor\<close>

text \<open>
  The program is \<^verbatim>\<open>supply_vendor_dashboard.py\<close>. Its data is a pandas table whose cells
  are Python scalars. A cell is modelled as a missing value (pandas' NaN), a text or an
  integer; floating-point, boolean and date cells are outside the model. A text is a list
  of characters with code points below 256 (Latin-1), a \<open>char\<close> being its code point;
  text with code points beyond is outside the model.
\<close>

datatype cell = NaN | Str string | Num int

text \<open>
  What ends a run: the Python exceptions the script can meet, \<^verbatim>\<open>st.stop()\<close>, and a
  search pattern that the model of regular expressions does not cover.
\<close>

datatype error =
    KeyError string
  | TypeError
  | ImportError
  | ParseError
  | StopScript
  | PatternOutsideModel

subsection \<open>Column names (lines 7-24)\<close>

definition VENDOR_CODE_COL :: string where "VENDOR_CODE_COL = ''Vendor Code''"
definition VENDOR_NAME_COL :: string where "VENDOR_NAME_COL = ''Vendor Name''"
definition NAME_COL :: string where "NAME_COL = ''Name''"
definition EMAIL_COL :: string where "EMAIL_COL = ''Email''"
definition PHONE_COL :: string where "PHONE_COL = ''Phone Number''"
definition CATEGORY_COL :: string where "CATEGORY_COL = ''Category''"
definition CUISINE_1_COL :: string where "CUISINE_1_COL = ''Cuisine type 1''"
definition CUISINE_2_COL :: string where "CUISINE_2_COL = ''Cuisine Type 2''"
definition SERVICE_MODEL_COL :: string where "SERVICE_MODEL_COL = ''Service Model''"
definition SERVING_CAP_COL :: string where "SERVING_CAP_COL = ''Serving Capacity''"
definition STATE_COL :: string where "STATE_COL = ''State''"
definition CITY_COL :: string where "CITY_COL = ''City''"
definition AREA_COL :: string where "AREA_COL = ''Area''"
definition OTHER_CITY_COL :: string where "OTHER_CITY_COL = ''Other City 1''"
definition AREA_1_COL :: string where "AREA_1_COL = ''Area 1''"

subsection \<open>Python's \<^verbatim>\<open>str\<close>, \<^verbatim>\<open>pd.notna\<close> and \<^verbatim>\<open>str.join\<close>\<close>

definition digit_char :: "nat \<Rightarrow> char" where
  "digit_char d = char_of (48 + d)"

fun digits :: "nat \<Rightarrow> string" where
  "digits n = (if n < 10 then [digit_char n] else digits (n div 10) @ [digit_char (n mod 10)])"

declare digits.simps [simp del]

definition str_int :: "int \<Rightarrow> string" where
  "str_int i = (if i < 0 then CHR ''-'' # digits (nat (- i)) else digits (nat i))"

text \<open>
  \<^verbatim>\<open>str(x)\<close> of a cell, which is also what \<^verbatim>\<open>astype(str)\<close> gives on a column of dtype
  object or int64: a missing value becomes the text \<^verbatim>\<open>nan\<close>.
\<close>

fun py_str :: "cell \<Rightarrow> string" where
  "py_str NaN = ''nan''"
| "py_str (Str s) = s"
| "py_str (Num i) = str_int i"

definition notna :: "cell \<Rightarrow> bool" where
  "notna v = (v \<noteq> NaN)"

text \<open>\<^verbatim>\<open>sep.join(items)\<close> on texts.\<close>

fun join :: "string \<Rightarrow> string list \<Rightarrow> string" where
  "join sep [] = []"
| "join sep [x] = x"
| "join sep (x # y # ys) = x @ sep @ join sep (y # ys)"

text \<open>
  \<^verbatim>\<open>sep.join(items)\<close> on cells: Python raises TypeError at the first item that is not
  a text.
\<close>

fun str_items :: "cell list \<Rightarrow> error + string list" where
  "str_items [] = Inr []"
| "str_items (Str s # cs) = (case str_items cs of Inl e \<Rightarrow> Inl e | Inr ss \<Rightarrow> Inr (s # ss))"
| "str_items (c # cs) = Inl TypeError"

definition py_join :: "string \<Rightarrow> cell list \<Rightarrow> error + string" where
  "py_join sep items = (case str_items items of Inl e \<Rightarrow> Inl e | Inr ss \<Rightarrow> Inr (join sep ss))"

subsection \<open>Rows and \<^verbatim>\<open>safe_get\<close> (lines 68-71)\<close>

text \<open>
  A row is a pandas Series: labels with their values, a mapping from column name to
  cell. \<^verbatim>\<open>col in row\<close> is \<open>map_of row col \<noteq> None\<close> and \<^verbatim>\<open>row[col]\<close> is the value found.
\<close>

type_synonym series = "(string \<times> cell) list"

definition safe_get :: "series \<Rightarrow> string \<Rightarrow> cell \<Rightarrow> cell" where
  "safe_get row col dflt =
     (case map_of row col of
        Some v \<Rightarrow> if notna v then v else dflt
      | None \<Rightarrow> dflt)"

subsection \<open>\<^verbatim>\<open>extract_vendor_info\<close> (lines 74-110)\<close>

definition location_cols :: "string list" where
  "location_cols = [AREA_COL, AREA_1_COL, CITY_COL, OTHER_CITY_COL, STATE_COL]"

text \<open>The loop of lines 85-87, with \<^verbatim>\<open>location_parts\<close> as the accumulator.\<close>

fun location_loop :: "series \<Rightarrow> string list \<Rightarrow> string list \<Rightarrow> string list" where
  "location_loop row [] parts = parts"
| "location_loop row (col # cols) parts =
     (case map_of row col of
        Some v \<Rightarrow>
          if notna v then location_loop row cols (parts @ [py_str v])
          else location_loop row cols parts
      | None \<Rightarrow> location_loop row cols parts)"

definition location :: "series \<Rightarrow> string" where
  "location row =
     (let location_parts = location_loop row location_cols []
      in if location_parts \<noteq> [] then join '', '' location_parts else ''-'')"

definition cuisine_parts :: "series \<Rightarrow> cell list" where
  "cuisine_parts row =
     (let cuisine1 = safe_get row CUISINE_1_COL (Str '''');
          cuisine2 = safe_get row CUISINE_2_COL (Str '''')
      in filter (\<lambda>c. c \<notin> set [Str '''', Str ''-'']) [cuisine1, cuisine2])"

definition cuisine_text :: "series \<Rightarrow> error + string" where
  "cuisine_text row =
     (if cuisine_parts row \<noteq> [] then py_join '' / '' (cuisine_parts row) else Inr ''-'')"

text \<open>The returned dictionary, in the order of its literal.\<close>

type_synonym info = "(string \<times> cell) list"

definition extract_vendor_info :: "series \<Rightarrow> error + info" where
  "extract_vendor_info row =
     (let vendor_code = safe_get row VENDOR_CODE_COL (Str ''-'');
          vendor_name = safe_get row VENDOR_NAME_COL (Str ''-'');
          owner_name = safe_get row NAME_COL (Str ''-'');
          phone = safe_get row PHONE_COL (Str ''-'');
          email = safe_get row EMAIL_COL (Str ''-'');
          loc = location row;
          category = safe_get row CATEGORY_COL (Str ''-'')
      in case cuisine_text row of
           Inl e \<Rightarrow> Inl e
         | Inr cuisine \<Rightarrow>
             (let service_model = safe_get row SERVICE_MODEL_COL (Str ''-'');
                  serving_capacity = safe_get row SERVING_CAP_COL (Str ''-'')
              in Inr [(''vendor_code'', vendor_code),
                      (''vendor_name'', vendor_name),
                      (''owner_name'', owner_name),
                      (''phone'', phone),
                      (''email'', email),
                      (''location'', Str loc),
                      (''category'', category),
                      (''cuisine_text'', Str cuisine),
                      (''service_model'', service_model),
                      (''serving_capacity'', serving_capacity)]))"

section \<open>Tables\<close>

text \<open>
  A DataFrame has named columns, each with a dtype, and rows of cells in column order.
  \<^verbatim>\<open>pd.read_csv\<close> gives a text column the dtype object and a column of integers the
  dtype int64. Column labels are texts and are taken to be distinct, as in the
  specification's data model (a row maps each column name to one value).
\<close>

datatype dtype = Object | Int64

record dataframe =
  columns :: "(string \<times> dtype) list"
  rows :: "cell list list"

definition column_names :: "dataframe \<Rightarrow> string list" where
  "column_names df = map fst (columns df)"

text \<open>A row of the table as a Series, as \<^verbatim>\<open>iterrows\<close> and \<^verbatim>\<open>iloc\<close> hand it out.\<close>

definition row_series :: "dataframe \<Rightarrow> cell list \<Rightarrow> series" where
  "row_series df cells = zip (column_names df) cells"

section \<open>The loader (lines 39-63)\<close>

text \<open>
  Lower case, as \<^verbatim>\<open>str.lower()\<close> and the flag IGNORECASE of \<^verbatim>\<open>re\<close> fold it on code
  points below 256: the capitals A to Z, and the capitals from 192 to 222 other than the
  multiplication sign 215, have their small letter 32 higher.
\<close>

definition lower_char :: "char \<Rightarrow> char" where
  "lower_char c =
     (let n = of_char c :: nat
      in if (65 \<le> n \<and> n \<le> 90) \<or> (192 \<le> n \<and> n \<le> 222 \<and> n \<noteq> 215)
         then char_of (n + 32) else c)"

definition lower :: "string \<Rightarrow> string" where
  "lower s = map lower_char s"

text \<open>The characters \<^verbatim>\<open>str.strip()\<close> removes: tab to carriage return, the four
  separators 28 to 31, the space, next line (133) and the no-break space (160).\<close>

definition is_space :: "char \<Rightarrow> bool" where
  "is_space c =
     (let n = of_char c :: nat
      in (9 \<le> n \<and> n \<le> 13) \<or> (28 \<le> n \<and> n \<le> 32) \<or> n = 133 \<or> n = 160)"

definition strip :: "string \<Rightarrow> string" where
  "strip s = rev (dropWhile is_space (rev (dropWhile is_space s)))"

text \<open>\<^verbatim>\<open>df.columns = df.columns.str.strip()\<close>\<close>

definition strip_columns :: "dataframe \<Rightarrow> dataframe" where
  "strip_columns df = df\<lparr>columns := map (\<lambda>(c, t). (strip c, t)) (columns df)\<rparr>"

text \<open>
  The uploaded file: its name, and what \<^verbatim>\<open>pd.read_csv\<close> and \<^verbatim>\<open>pd.read_excel\<close> return
  on its content (parsing is the library's work and is taken as given).
\<close>

record uploaded_file =
  name :: string
  read_csv :: "error + dataframe"
  read_excel :: "error + dataframe"

definition load_vendor_data :: "uploaded_file \<Rightarrow> error + dataframe" where
  "load_vendor_data f =
     (let file_name = lower (name f)
      in if suffix ''.csv'' file_name then
           (case read_csv f of Inl e \<Rightarrow> Inl e | Inr df \<Rightarrow> Inr (strip_columns df))
         else
           (case read_excel f of
              Inl ImportError \<Rightarrow> Inl StopScript
            | Inl e \<Rightarrow> Inl e
            | Inr df \<Rightarrow> Inr (strip_columns df)))"

section \<open>The filters of advanced mode (lines 234-254)\<close>

subsection \<open>\<^verbatim>\<open>Series.str.contains(pat, case=False, na=False)\<close>\<close>

text \<open>
  \<^verbatim>\<open>str.contains\<close> is called without \<^verbatim>\<open>regex=False\<close>, so the query is compiled as a
  regular expression with the flag IGNORECASE and searched in every value. The fragment
  modelled here is a sequence of ordinary characters and dots; a query with any other
  metacharacter gets \<open>PatternOutsideModel\<close> (among them are the queries on which
  \<^verbatim>\<open>re.compile\<close> raises).
\<close>

datatype atom = Lit char | AnyChar

definition regex_meta :: "char list" where
  "regex_meta = ''.^$*+?{}[]|()'' @ [CHR 0x5C]"

fun re_compile :: "string \<Rightarrow> error + atom list" where
  "re_compile [] = Inr []"
| "re_compile (c # cs) =
     (if c = CHR ''.'' then
        (case re_compile cs of Inl e \<Rightarrow> Inl e | Inr as \<Rightarrow> Inr (AnyChar # as))
      else if c \<in> set regex_meta then Inl PatternOutsideModel
      else (case re_compile cs of Inl e \<Rightarrow> Inl e | Inr as \<Rightarrow> Inr (Lit c # as)))"

fun atom_match :: "atom \<Rightarrow> char \<Rightarrow> bool" where
  "atom_match (Lit c) d = (lower_char c = lower_char d)"
| "atom_match AnyChar d = (d \<noteq> CHR 0x0A)"

fun match_here :: "atom list \<Rightarrow> string \<Rightarrow> bool" where
  "match_here [] s = True"
| "match_here (a # as) [] = False"
| "match_here (a # as) (c # cs) = (atom_match a c \<and> match_here as cs)"

fun re_search :: "atom list \<Rightarrow> string \<Rightarrow> bool" where
  "re_search as [] = match_here as []"
| "re_search as (c # cs) = (match_here as (c # cs) \<or> re_search as cs)"

subsection \<open>Global search (lines 238-248)\<close>

text \<open>
  \<^verbatim>\<open>select_dtypes(include=["object", "string"])\<close>: a loaded table has no column of
  the extension dtype string, so its textual columns are the columns of dtype object.
\<close>

definition string_cols :: "dataframe \<Rightarrow> string list" where
  "string_cols df = map fst (filter (\<lambda>(c, t). t = Object) (columns df))"

text \<open>
  The loop of lines 242-247 at one row: the mask starts False and is or-ed with the
  match in each textual column, the value stringified by \<^verbatim>\<open>astype(str)\<close>.
\<close>

fun search_mask :: "atom list \<Rightarrow> series \<Rightarrow> string list \<Rightarrow> bool \<Rightarrow> bool" where
  "search_mask re row [] acc = acc"
| "search_mask re row (col # cols) acc =
     search_mask re row cols
       (acc \<or> (case map_of row col of Some v \<Rightarrow> re_search re (py_str v) | None \<Rightarrow> False))"

definition global_search :: "string \<Rightarrow> dataframe \<Rightarrow> error + dataframe" where
  "global_search search_query results_df =
     (if search_query \<noteq> [] then
        (if length (string_cols results_df) > 0 then
           (case re_compile search_query of
              Inl e \<Rightarrow> Inl e
            | Inr re \<Rightarrow>
                Inr (results_df\<lparr>rows :=
                  filter (\<lambda>cells. search_mask re (row_series results_df cells)
                                    (string_cols results_df) False)
                    (rows results_df)\<rparr>))
         else Inr results_df)
      else Inr results_df)"

text \<open>
  What lines 238-248 ask of one row for it to stay, with the guards of lines 238 and 240
  and the compiled pattern; \<open>global_search_rows\<close> proves that the search filters by it.
\<close>

definition search_keeps :: "string \<Rightarrow> dataframe \<Rightarrow> cell list \<Rightarrow> bool" where
  "search_keeps q df cells =
     (q = [] \<or> string_cols df = [] \<or>
      (case re_compile q of
         Inl e \<Rightarrow> False
       | Inr re \<Rightarrow>
           list_ex (\<lambda>col. case map_of (row_series df cells) col of
                            Some v \<Rightarrow> re_search re (py_str v)
                          | None \<Rightarrow> False)
             (string_cols df)))"

subsection \<open>Serving capacity filter (lines 250-254)\<close>

definition capacity_filter :: "string \<Rightarrow> dataframe \<Rightarrow> dataframe" where
  "capacity_filter serving_capacity_option results_df =
     (if serving_capacity_option \<noteq> ''All'' \<and> SERVING_CAP_COL \<in> set (column_names results_df)
      then results_df\<lparr>rows :=
             filter (\<lambda>cells. case map_of (row_series results_df cells) SERVING_CAP_COL of
                               Some v \<Rightarrow> py_str v = serving_capacity_option
                             | None \<Rightarrow> False)
               (rows results_df)\<rparr>
      else results_df)"

definition advanced_results :: "string \<Rightarrow> string \<Rightarrow> dataframe \<Rightarrow> error + dataframe" where
  "advanced_results search_query serving_capacity_option df =
     (case global_search search_query df of
        Inl e \<Rightarrow> Inl e
      | Inr results_df \<Rightarrow> Inr (capacity_filter serving_capacity_option results_df))"

section \<open>The script (lines 172-307)\<close>

text \<open>
  What a run shows, without layout: the prompt of basic mode, the warning that no row
  has the selected vendor, the card of one vendor, or the count and the cards of advanced
  mode (an empty list of cards stands for the message that no vendor matches).
\<close>

datatype view =
    SelectPrompt
  | NoData
  | VendorCard info
  | Results nat "info list"

record controls =
  selected_vendor :: cell
  show_advanced :: bool
  search_input :: string
  capacity_input :: string

text \<open>\<^verbatim>\<open>df[col]\<close>: KeyError when the table has no such column.\<close>

definition get_column :: "dataframe \<Rightarrow> string \<Rightarrow> error + cell list" where
  "get_column df col =
     (if col \<in> set (column_names df)
      then Inr (List.map_filter (\<lambda>cells. map_of (row_series df cells) col) (rows df))
      else Inl (KeyError col))"

definition dropna :: "cell list \<Rightarrow> cell list" where
  "dropna vs = filter notna vs"

text \<open>\<^verbatim>\<open>unique()\<close> keeps the first occurrence of every value.\<close>

definition unique :: "cell list \<Rightarrow> cell list" where
  "unique vs = rev (remdups (rev vs))"

fun strs_of :: "cell list \<Rightarrow> string list option" where
  "strs_of [] = Some []"
| "strs_of (Str s # cs) = map_option (Cons s) (strs_of cs)"
| "strs_of (c # cs) = None"

fun nums_of :: "cell list \<Rightarrow> int list option" where
  "nums_of [] = Some []"
| "nums_of (Num i # cs) = map_option (Cons i) (nums_of cs)"
| "nums_of (c # cs) = None"

text \<open>
  \<^verbatim>\<open>sorted(xs)\<close>: texts are ordered by code point, integers by value, and comparing a
  text with an integer raises TypeError.
\<close>

definition py_sorted :: "cell list \<Rightarrow> error + cell list" where
  "py_sorted xs =
     (if length xs \<le> 1 then Inr xs
      else case strs_of xs of
             Some ss \<Rightarrow> Inr (map Str (sort ss))
           | None \<Rightarrow>
               (case nums_of xs of
                  Some ns \<Rightarrow> Inr (map Num (sort ns))
                | None \<Rightarrow> Inl TypeError))"

text \<open>Line 188.\<close>

definition vendor_list :: "dataframe \<Rightarrow> error + cell list" where
  "vendor_list df =
     (case get_column df VENDOR_NAME_COL of
        Inl e \<Rightarrow> Inl e
      | Inr vs \<Rightarrow> py_sorted (unique (dropna vs)))"

text \<open>The loop of lines 262-274: the first row on which the extractor raises ends the run.\<close>

fun render_rows :: "series list \<Rightarrow> error + info list" where
  "render_rows [] = Inr []"
| "render_rows (row # rest) =
     (case extract_vendor_info row of
        Inl e \<Rightarrow> Inl e
      | Inr i \<Rightarrow> (case render_rows rest of Inl e \<Rightarrow> Inl e | Inr is \<Rightarrow> Inr (i # is)))"

definition advanced_mode :: "dataframe \<Rightarrow> string \<Rightarrow> string \<Rightarrow> error + view" where
  "advanced_mode df search_query serving_capacity_option =
     (case advanced_results search_query serving_capacity_option df of
        Inl e \<Rightarrow> Inl e
      | Inr results_df \<Rightarrow>
          (case render_rows (map (row_series results_df) (rows results_df)) of
             Inl e \<Rightarrow> Inl e
           | Inr cards \<Rightarrow> Inr (Results (length (rows results_df)) cards)))"

text \<open>Lines 280-307. The comparison of line 283 is never true at a missing value.\<close>

definition vendor_matches :: "dataframe \<Rightarrow> cell \<Rightarrow> cell list \<Rightarrow> bool" where
  "vendor_matches df selected cells =
     (case map_of (row_series df cells) VENDOR_NAME_COL of
        Some v \<Rightarrow> notna v \<and> v = selected
      | None \<Rightarrow> False)"

definition basic_mode :: "dataframe \<Rightarrow> cell \<Rightarrow> error + view" where
  "basic_mode df selected =
     (if selected = Str ''All Vendors'' then Inr SelectPrompt
      else if VENDOR_NAME_COL \<notin> set (column_names df) then Inl (KeyError VENDOR_NAME_COL)
      else
        (let vendor_rows = filter (vendor_matches df selected) (rows df)
         in case vendor_rows of
              [] \<Rightarrow> Inr NoData
            | row # rest \<Rightarrow>
                (case extract_vendor_info (row_series df row) of
                   Inl e \<Rightarrow> Inl e
                 | Inr i \<Rightarrow> Inr (VendorCard i))))"

definition dashboard :: "dataframe \<Rightarrow> controls \<Rightarrow> error + view" where
  "dashboard df ui =
     (case vendor_list df of
        Inl e \<Rightarrow> Inl e
      | Inr vendors \<Rightarrow>
          (let search_query = (if show_advanced ui then search_input ui else []);
               serving_capacity_option =
                 (if show_advanced ui \<and> SERVING_CAP_COL \<in> set (column_names df)
                  then capacity_input ui else ''All'')
           in if show_advanced ui
              then advanced_mode df search_query serving_capacity_option
              else basic_mode df (selected_vendor ui)))"

text \<open>Lines 178-183: without an upload the script stops at its prompt.\<close>

definition run_script :: "uploaded_file option \<Rightarrow> controls \<Rightarrow> error + view" where
  "run_script upload ui =
     (case upload of
        None \<Rightarrow> Inl StopScript
      | Some f \<Rightarrow>
          (case load_vendor_data f of Inl e \<Rightarrow> Inl e | Inr df \<Rightarrow> dashboard df ui))"

section \<open>The specification's wording, as definitions\<close>

text \<open>A value is present in a row when its column is there and the value is not missing.\<close>

definition present_value :: "series \<Rightarrow> string \<Rightarrow> cell option" where
  "present_value row col =
     (case map_of row col of Some v \<Rightarrow> if v = NaN then None else Some v | None \<Rightarrow> None)"

text \<open>
  Location as the specification words it: the string forms of the present values of the
  five columns in their fixed order, joined by a comma and a space, or the placeholder.
\<close>

definition spec_location :: "series \<Rightarrow> string" where
  "spec_location row =
     (let present = map py_str (List.map_filter (present_value row) location_cols)
      in if present = [] then ''-'' else join '', '' present)"

text \<open>A query without regular-expression metacharacters.\<close>

definition is_literal :: "string \<Rightarrow> bool" where
  "is_literal q = list_all (\<lambda>c. c \<notin> set regex_meta) q"

text \<open>
  Text search as the specification words it: the query, compared case-insensitively, is
  a substring of the string form of the value of at least one textual column of the row.
\<close>

definition spec_text_match :: "string \<Rightarrow> dataframe \<Rightarrow> cell list \<Rightarrow> bool" where
  "spec_text_match q df cells =
     list_ex (\<lambda>col. case map_of (row_series df cells) col of
                      Some v \<Rightarrow> sublist (lower q) (lower (py_str v))
                    | None \<Rightarrow> False)
       (string_cols df)"


text \<open>The keys of the vendor record.\<close>

definition info_keys :: "string list" where
  "info_keys = [''vendor_code'', ''vendor_name'', ''owner_name'', ''phone'', ''email'',
                ''location'', ''category'', ''cuisine_text'', ''service_model'',
                ''serving_capacity'']"

section \<open>Sample inputs\<close>

definition sample_frame :: dataframe where
  "sample_frame =
     \<lparr>columns = [(''Vendor Name'', Object), (''Serving Capacity'', Int64), (''City'', Object)],
      rows = [[Str ''Pizza Palace'', Num 500, NaN],
              [Str ''Acme Foods'', Num 5000, Str ''Pune''],
              [Str ''Acme Foods'', Num 500, Str ''Goa'']]\<rparr>"

definition numeric_frame :: dataframe where
  "numeric_frame = \<lparr>columns = [(''Serving Capacity'', Int64)], rows = [[Num 500]]\<rparr>"

definition no_vendor_name_frame :: dataframe where
  "no_vendor_name_frame =
     \<lparr>columns = [(''Vendor Code'', Object), (''Name'', Object)],
      rows = [[Str ''V001'', Str ''Asha'']]\<rparr>"

definition csv_upload :: uploaded_file where
  "csv_upload =
     \<lparr>name = ''Vendors.CSV'',
      read_csv = Inr \<lparr>columns = [(''  Vendor Code '', Object), (''Vendor Name'', Object)],
                      rows = [[Str ''V001'', Str ''Acme Foods'']]\<rparr>,
      read_excel = Inl ParseError\<rparr>"


text \<open>A spreadsheet whose header has a no-break space before it and a next-line
  character after it.\<close>

definition xlsx_upload :: uploaded_file where
  "xlsx_upload =
     \<lparr>name = ''vendors.xlsx'',
      read_csv = Inl ParseError,
      read_excel = Inr \<lparr>columns = [(CHR 0xA0 # ''Vendor Name'' @ [CHR 0x85], Object)],
                        rows = [[Str ''Acme Foods'']]\<rparr>\<rparr>"


definition basic_controls :: "cell \<Rightarrow> controls" where
  "basic_controls v =
     \<lparr>selected_vendor = v, show_advanced = False, search_input = [], capacity_input = ''All''\<rparr>"

section \<open>Properties of the field extractor\<close>

lemma location_loop_eq:
  "location_loop row cols parts = parts @ map py_str (List.map_filter (present_value row) cols)"
  by (induction cols arbitrary: parts)
     (auto simp: List.map_filter_simps present_value_def notna_def split: option.splits)

lemma location_eq_spec: "location row = spec_location row"
  by (simp add: location_def spec_location_def location_loop_eq Let_def)

lemma extract_location:
  "extract_vendor_info row = Inr i \<Longrightarrow> map_of i ''location'' = Some (Str (location row))"
  by (auto simp: extract_vendor_info_def Let_def split: sum.splits)

text \<open>
  C4: for every row, the composed location is the string forms of the present (non-null)
  values of Area, Area 1, City, Other City 1 and State, in this order, joined by
  \<^verbatim>\<open>", "\<close>, and it is \<^verbatim>\<open>"-"\<close> when none of them is present; this is the value under the
  key \<^verbatim>\<open>location\<close> of every record the extractor returns.
\<close>

theorem location_composition:
  "location row = spec_location row \<and>
   (\<forall>i. extract_vendor_info row = Inr i \<longrightarrow>
        map_of i ''location'' = Some (Str (spec_location row)))"
  using extract_location [of row] by (simp add: location_eq_spec)

theorem location_composition_witness:
  "(case extract_vendor_info
           [(''Area'', Str ''Downtown''), (''City'', Str ''Springfield''),
            (''State'', Str ''IL'')] of
      Inl e \<Rightarrow> None
    | Inr i \<Rightarrow> map_of i ''location'') = Some (Str ''Downtown, Springfield, IL'')
   \<and> location [(''Vendor Name'', Str ''Acme''), (''City'', NaN)] = ''-''"
proof -
  let ?row = "[(''Area'', Str ''Downtown''), (''City'', Str ''Springfield''),
               (''State'', Str ''IL'')]"
  let ?none = "[(''Vendor Name'', Str ''Acme''), (''City'', NaN)]"
  have ex: "extract_vendor_info ?row =
    Inr [(''vendor_code'', Str ''-''), (''vendor_name'', Str ''-''),
         (''owner_name'', Str ''-''), (''phone'', Str ''-''), (''email'', Str ''-''),
         (''location'', Str (location ?row)), (''category'', Str ''-''),
         (''cuisine_text'', Str ''-''), (''service_model'', Str ''-''),
         (''serving_capacity'', Str ''-'')]"
    by code_simp
  have sp: "spec_location ?row = ''Downtown, Springfield, IL''"
    by code_simp
  have sn: "spec_location ?none = ''-''"
    by code_simp
  from location_composition [of ?row] location_composition [of ?none] ex sp sn
  show ?thesis by simp
qed

subsection \<open>The record and its keys\<close>

lemma extract_keys: "extract_vendor_info row = Inr i \<Longrightarrow> map fst i = info_keys"
  by (auto simp: extract_vendor_info_def info_keys_def Let_def split: sum.splits)

lemma safe_get_cases:
  "safe_get row col d = d \<or> (map_of row col = Some (safe_get row col d) \<and> safe_get row col d \<noteq> NaN)"
  by (auto simp: safe_get_def notna_def split: option.splits)

lemma cuisine_text_of_texts:
  assumes "\<forall>n. map_of row CUISINE_1_COL \<noteq> Some (Num n)"
    and "\<forall>n. map_of row CUISINE_2_COL \<noteq> Some (Num n)"
  shows "\<exists>t. cuisine_text row = Inr t"
proof -
  have a: "\<exists>s. safe_get row CUISINE_1_COL (Str []) = Str s"
    using assms(1) safe_get_cases [of row CUISINE_1_COL "Str []"]
    by (cases "safe_get row CUISINE_1_COL (Str [])") auto
  have b: "\<exists>s. safe_get row CUISINE_2_COL (Str []) = Str s"
    using assms(2) safe_get_cases [of row CUISINE_2_COL "Str []"]
    by (cases "safe_get row CUISINE_2_COL (Str [])") auto
  from a b show ?thesis
    by (auto simp: cuisine_text_def cuisine_parts_def py_join_def Let_def)
qed

lemma extract_vendor_info_of_texts:
  assumes "\<forall>n. map_of row CUISINE_1_COL \<noteq> Some (Num n)"
    and "\<forall>n. map_of row CUISINE_2_COL \<noteq> Some (Num n)"
  shows "\<exists>i. extract_vendor_info row = Inr i \<and> map fst i = info_keys"
proof -
  from cuisine_text_of_texts [OF assms] obtain t where "cuisine_text row = Inr t" ..
  then have "\<exists>i. extract_vendor_info row = Inr i"
    by (simp add: extract_vendor_info_def Let_def)
  then show ?thesis using extract_keys by blast
qed

lemma cuisine_text_texts:
  assumes "safe_get row CUISINE_1_COL (Str []) = Str a"
    and "safe_get row CUISINE_2_COL (Str []) = Str b"
  shows "cuisine_text row =
           Inr (let kept = filter (\<lambda>s. s \<noteq> [] \<and> s \<noteq> ''-'') [a, b]
                in if kept = [] then ''-'' else join '' / '' kept)"
  using assms by (simp add: cuisine_text_def cuisine_parts_def py_join_def Let_def)

text \<open>
  C3: the claim is that the extractor returns the ten keys for every row and never
  raises. It does so on every row whose two cuisine values are texts or missing
  (\<open>extract_vendor_info_of_texts\<close>). On a row whose cuisine value is a number the
  join of line 94 raises TypeError: the location code stringifies its values with
  \<^verbatim>\<open>str\<close> (line 87), the cuisine code does not.
\<close>

theorem extract_vendor_info_numeric_cuisine:
  "extract_vendor_info [(''Vendor Name'', Str ''Acme Foods''), (''Cuisine type 1'', Num 5)]
     = Inl TypeError"
  by code_simp

text \<open>
  C5: the claim is that the cuisine field is the surviving cuisine values joined by
  \<^verbatim>\<open>" / "\<close>, for every row. It is so when the values are texts
  (\<open>cuisine_text_texts\<close>). A number survives the filter of line 93, and joining it
  raises TypeError, so that no cuisine field is produced.
\<close>

theorem cuisine_text_numeric_survivor:
  "cuisine_parts [(''Cuisine type 1'', Str ''Italian''), (''Cuisine Type 2'', Num 7)]
     = [Str ''Italian'', Num 7] \<and>
   cuisine_text [(''Cuisine type 1'', Str ''Italian''), (''Cuisine Type 2'', Num 7)]
     = Inl TypeError"
  by (simp add: cuisine_text_def cuisine_parts_def safe_get_def notna_def py_join_def
        CUISINE_1_COL_def CUISINE_2_COL_def)

section \<open>Properties of the loader\<close>

lemma strip_decomposition:
  "\<exists>pre post. s = pre @ strip s @ post \<and> list_all is_space pre \<and> list_all is_space post"
proof -
  let ?t = "dropWhile is_space s"
  have 1: "s = takeWhile is_space s @ ?t" by simp
  have "strip s @ rev (takeWhile is_space (rev ?t)) =
        rev (takeWhile is_space (rev ?t) @ dropWhile is_space (rev ?t))"
    by (simp only: strip_def rev_append)
  also have "\<dots> = rev (rev ?t)"
    by (simp only: takeWhile_dropWhile_id)
  finally have 2: "?t = strip s @ rev (takeWhile is_space (rev ?t))"
    by simp
  have 3: "list_all is_space (takeWhile is_space s)"
    by (auto simp: list_all_iff dest: set_takeWhileD)
  have 4: "list_all is_space (rev (takeWhile is_space (rev ?t)))"
    by (auto simp: list_all_iff dest: set_takeWhileD)
  from 1 2 have "s = takeWhile is_space s @ strip s @ rev (takeWhile is_space (rev ?t))"
    by simp
  with 3 4 show ?thesis by blast
qed

lemma last_dropWhile_nonempty:
  "dropWhile P xs \<noteq> [] \<Longrightarrow> last (dropWhile P xs) = last xs"
  by (induction xs) (auto split: if_splits)

lemma strip_ends:
  assumes "strip s \<noteq> []"
  shows "\<not> is_space (hd (strip s)) \<and> \<not> is_space (last (strip s))"
proof -
  let ?t = "dropWhile is_space s"
  let ?u = "dropWhile is_space (rev ?t)"
  from assms have u: "?u \<noteq> []" by (simp add: strip_def)
  have t: "?t \<noteq> []"
  proof
    assume e: "?t = []"
    have "?u = []" unfolding e by simp
    with u show False by contradiction
  qed
  have "last (strip s) = hd ?u"
    using u by (simp add: strip_def last_rev)
  moreover have "\<not> is_space (hd ?u)"
    using u by (rule hd_dropWhile)
  moreover have "hd (strip s) = last ?u"
    using u by (simp add: strip_def hd_rev)
  moreover have "last ?u = last (rev ?t)"
    using u by (rule last_dropWhile_nonempty)
  moreover have "last (rev ?t) = hd ?t"
    using t by (simp add: last_rev)
  moreover have "\<not> is_space (hd ?t)"
    using t by (rule hd_dropWhile)
  ultimately show ?thesis by simp
qed

lemma column_names_strip_columns:
  "column_names (strip_columns df) = map strip (column_names df)"
  by (simp add: column_names_def strip_columns_def case_prod_unfold comp_def)

lemma load_vendor_data_Inr_iff:
  "load_vendor_data f = Inr df \<longleftrightarrow>
     (\<exists>parsed. (if suffix ''.csv'' (lower (name f)) then read_csv f else read_excel f)
                  = Inr parsed \<and> df = strip_columns parsed)"
  by (auto simp: load_vendor_data_def Let_def split: if_splits sum.splits error.splits)

text \<open>
  C9: every upload that parses (as CSV when the lower-cased name ends in
  \<^verbatim>\<open>.csv\<close>, as a spreadsheet otherwise) is returned by the loader, with the parsed rows and
  dtypes and with every column header stripped: each parsed header is its stripped form
  between a run of whitespace on the left and one on the right, and no header of the
  result begins or ends with whitespace. A cell under the CSV header
  \<^verbatim>\<open>"  Vendor Code "\<close> is found under the name \<^verbatim>\<open>"Vendor Code"\<close>.
\<close>

theorem load_vendor_data_strips_headers:
  assumes "(if suffix ''.csv'' (lower (name f)) then read_csv f else read_excel f) = Inr parsed"
  shows "\<exists>df. load_vendor_data f = Inr df \<and>
           rows df = rows parsed \<and>
           map snd (columns df) = map snd (columns parsed) \<and>
           column_names df = map strip (column_names parsed) \<and>
           (\<forall>h \<in> set (column_names parsed).
              \<exists>pre post. h = pre @ strip h @ post \<and>
                         list_all is_space pre \<and> list_all is_space post) \<and>
           (\<forall>h \<in> set (column_names df).
              h = [] \<or> (\<not> is_space (hd h) \<and> \<not> is_space (last h)))"
proof -
  let ?df = "strip_columns parsed"
  have l: "load_vendor_data f = Inr ?df"
    using assms by (simp add: load_vendor_data_def Let_def split: if_splits)
  have r: "rows ?df = rows parsed"
    by (simp add: strip_columns_def)
  have t: "map snd (columns ?df) = map snd (columns parsed)"
    by (simp add: strip_columns_def case_prod_unfold comp_def)
  have c: "column_names ?df = map strip (column_names parsed)"
    by (rule column_names_strip_columns)
  have e: "\<forall>h \<in> set (column_names ?df). h = [] \<or> (\<not> is_space (hd h) \<and> \<not> is_space (last h))"
    using strip_ends by (auto simp: c)
  from l r t c e strip_decomposition show ?thesis by blast
qed

theorem load_vendor_data_strips_headers_witness:
  "(\<exists>df. load_vendor_data csv_upload = Inr df \<and>
      column_names df = [''Vendor Code'', ''Vendor Name''] \<and>
      rows df = [[Str ''V001'', Str ''Acme Foods'']] \<and>
      map_of (row_series df [Str ''V001'', Str ''Acme Foods'']) ''Vendor Code''
        = Some (Str ''V001'')) \<and>
   (\<exists>df. load_vendor_data xlsx_upload = Inr df \<and>
      column_names df = [''Vendor Name''] \<and> rows df = [[Str ''Acme Foods'']])"
proof -
  have lo: "lower ''Vendors.CSV'' = ''vendors.csv''"
    by code_simp
  have lx: "lower ''vendors.xlsx'' = ''vendors.xlsx''"
    by code_simp
  have p1: "(if suffix ''.csv'' (lower (name csv_upload))
             then read_csv csv_upload else read_excel csv_upload) =
            Inr \<lparr>columns = [(''  Vendor Code '', Object), (''Vendor Name'', Object)],
                 rows = [[Str ''V001'', Str ''Acme Foods'']]\<rparr>"
    by (simp add: csv_upload_def lo suffix_to_prefix)
  have p2: "(if suffix ''.csv'' (lower (name xlsx_upload))
             then read_csv xlsx_upload else read_excel xlsx_upload) =
            Inr \<lparr>columns = [(CHR 0xA0 # ''Vendor Name'' @ [CHR 0x85], Object)],
                 rows = [[Str ''Acme Foods'']]\<rparr>"
    by (simp add: xlsx_upload_def lx suffix_to_prefix)
  have s1: "strip ''  Vendor Code '' = ''Vendor Code''"
    by (simp add: strip_def is_space_def)
  have s2: "strip ''Vendor Name'' = ''Vendor Name''"
    by (simp add: strip_def is_space_def)
  have s3: "strip (CHR 0xA0 # ''Vendor Name'' @ [CHR 0x85]) = ''Vendor Name''"
    by (simp add: strip_def is_space_def)
  from load_vendor_data_strips_headers [OF p1]
  obtain df where "load_vendor_data csv_upload = Inr df"
    and "rows df = [[Str ''V001'', Str ''Acme Foods'']]"
    and "column_names df = [''Vendor Code'', ''Vendor Name'']"
    by (auto simp: column_names_def s1 s2)
  then have a: "\<exists>df. load_vendor_data csv_upload = Inr df \<and>
      column_names df = [''Vendor Code'', ''Vendor Name''] \<and>
      rows df = [[Str ''V001'', Str ''Acme Foods'']] \<and>
      map_of (row_series df [Str ''V001'', Str ''Acme Foods'']) ''Vendor Code''
        = Some (Str ''V001'')"
    by (auto simp: row_series_def)
  from load_vendor_data_strips_headers [OF p2]
  obtain dx where "load_vendor_data xlsx_upload = Inr dx"
    and "rows dx = [[Str ''Acme Foods'']]"
    and "column_names dx = [''Vendor Name'']"
    by (auto simp: column_names_def s3 simp del: append.simps)
  then have b: "\<exists>df. load_vendor_data xlsx_upload = Inr df \<and>
      column_names df = [''Vendor Name''] \<and> rows df = [[Str ''Acme Foods'']]"
    by blast
  from a b show ?thesis by (rule conjI)
qed

section \<open>Properties of the filters\<close>

lemma meta_dot: "CHR ''.'' \<in> set regex_meta"
  by (simp add: regex_meta_def)

lemma re_compile_literal: "is_literal q \<Longrightarrow> re_compile q = Inr (map Lit q)"
  by (induction q) (auto simp: is_literal_def meta_dot)

lemma match_here_literal: "match_here (map Lit q) s = prefix (lower q) (lower s)"
  by (induction q arbitrary: s) (case_tac s; auto simp: lower_def)+

lemma re_search_literal: "re_search (map Lit q) s = sublist (lower q) (lower s)"
  by (induction s) (auto simp: match_here_literal sublist_Cons_right lower_def)

lemma search_mask_eq:
  "search_mask re row cols acc =
     (acc \<or> list_ex (\<lambda>col. case map_of row col of
                              Some v \<Rightarrow> re_search re (py_str v) | None \<Rightarrow> False) cols)"
  by (induction cols arbitrary: acc) auto

lemma row_series_rows_update [simp]: "row_series (df\<lparr>rows := rs\<rparr>) = row_series df"
  by (rule ext) (simp add: row_series_def column_names_def)

lemma column_names_rows_update [simp]: "column_names (df\<lparr>rows := rs\<rparr>) = column_names df"
  by (simp add: column_names_def)

lemma string_cols_rows_update [simp]: "string_cols (df\<lparr>rows := rs\<rparr>) = string_cols df"
  by (simp add: string_cols_def)

lemma global_search_rows:
  "global_search q df = Inr res \<Longrightarrow>
   res = df\<lparr>rows := filter (search_keeps q df) (rows df)\<rparr>"
  by (auto simp: global_search_def search_keeps_def [abs_def] search_mask_eq
           split: if_splits sum.splits)



lemma global_search_returns:
  "re_compile q = Inr re \<Longrightarrow> \<exists>res. global_search q df = Inr res"
  by (simp add: global_search_def)


text \<open>
  The query is compiled as a regular expression: \<^verbatim>\<open>p.z\<close> keeps the row of Pizza Palace,
  of which it is not a substring.
\<close>

lemma regex_query_example:
  "global_search ''p.z'' sample_frame =
     Inr (sample_frame\<lparr>rows := [[Str ''Pizza Palace'', Num 500, NaN]]\<rparr>) \<and>
   \<not> spec_text_match ''p.z'' sample_frame [Str ''Pizza Palace'', Num 500, NaN]"
proof -
  have c: "re_compile ''p.z'' = Inr [Lit CHR ''p'', AnyChar, Lit CHR ''z'']"
    by code_simp
  have s: "string_cols sample_frame = [''Vendor Name'', ''City'']"
    by (simp add: string_cols_def sample_frame_def)
  have f: "filter (\<lambda>cells. search_mask [Lit CHR ''p'', AnyChar, Lit CHR ''z'']
                     (row_series sample_frame cells) [''Vendor Name'', ''City''] False)
             (rows sample_frame) = [[Str ''Pizza Palace'', Num 500, NaN]]"
    by code_simp
  have b: "global_search ''p.z'' sample_frame =
     Inr (sample_frame\<lparr>rows := [[Str ''Pizza Palace'', Num 500, NaN]]\<rparr>)"
    by (simp add: global_search_def c s f del: re_compile.simps search_mask.simps)
  have d: "\<not> spec_text_match ''p.z'' sample_frame [Str ''Pizza Palace'', Num 500, NaN]"
    by code_simp
  from b d show ?thesis by simp
qed

text \<open>
  Letters beyond ASCII are folded too: the query \<^verbatim>\<open>caf\<close> followed by a small e with acute
  (233) is found in the value \<^verbatim>\<open>CAF\<close> followed by the capital (201) and \<^verbatim>\<open> ROYAL\<close>.
\<close>

lemma re_search_latin1_example:
  "re_compile (''caf'' @ [CHR 0xE9]) =
     Inr [Lit CHR ''c'', Lit CHR ''a'', Lit CHR ''f'', Lit (CHR 0xE9)] \<and>
   re_search [Lit CHR ''c'', Lit CHR ''a'', Lit CHR ''f'', Lit (CHR 0xE9)]
     (''CAF'' @ [CHR 0xC9] @ '' ROYAL'')"
  by code_simp



lemma meta_lower: "c \<in> set regex_meta \<Longrightarrow> lower_char c = c"
  by (auto simp: regex_meta_def lower_char_def)

lemma meta_not_nan: "c \<in> set regex_meta \<Longrightarrow> c \<notin> set ''nan''"
  by (auto simp: regex_meta_def)

lemma lower_nan: "lower ''nan'' = ''nan''"
  by (simp add: lower_def lower_char_def)

lemma sublist_nan_literal:
  assumes "sublist (lower q) ''nan''"
  shows "is_literal q"
proof -
  have "c \<notin> set regex_meta" if "c \<in> set q" for c
  proof
    assume m: "c \<in> set regex_meta"
    from that have "lower_char c \<in> set (lower q)"
      by (simp add: lower_def)
    with set_mono_sublist [OF assms] have "lower_char c \<in> set ''nan''"
      by blast
    with meta_lower [OF m] meta_not_nan [OF m] show False
      by simp
  qed
  then show ?thesis
    by (simp add: is_literal_def list_all_iff)
qed

lemma string_cols_iff: "col \<in> set (string_cols df) \<longleftrightarrow> (col, Object) \<in> set (columns df)"
  by (auto simp: string_cols_def image_iff)

text \<open>
  C10: a row with a missing value in a textual column is retained by the text search
  for every query that is, case-insensitively, a substring of \<^verbatim>\<open>nan\<close>: the missing
  value is stringified to \<^verbatim>\<open>nan\<close> before matching.
\<close>

theorem nan_query_retains_missing:
  assumes "cells \<in> set (rows df)"
    and "(col, Object) \<in> set (columns df)"
    and "map_of (row_series df cells) col = Some NaN"
    and "sublist (lower q) ''nan''"
  shows "\<exists>res. global_search q df = Inr res \<and> cells \<in> set (rows res)"
proof -
  have lit: "is_literal q"
    by (rule sublist_nan_literal [OF assms(4)])
  have c: "col \<in> set (string_cols df)"
    using assms(2) by (simp add: string_cols_iff)
  have "re_search (map Lit q) (py_str NaN) = sublist (lower q) (lower ''nan'')"
    unfolding py_str.simps by (rule re_search_literal)
  with assms(4) have s: "re_search (map Lit q) (py_str NaN)"
    by (simp only: lower_nan)
  have "case map_of (row_series df cells) col of
          None \<Rightarrow> False | Some v \<Rightarrow> re_search (map Lit q) (py_str v)"
    using s by (simp only: assms(3) option.case)
  with c have "list_ex (\<lambda>col. case map_of (row_series df cells) col of
                                None \<Rightarrow> False
                              | Some v \<Rightarrow> re_search (map Lit q) (py_str v)) (string_cols df)"
    unfolding list_ex_iff by blast
  then have "search_keeps q df cells"
    by (simp only: search_keeps_def re_compile_literal [OF lit] sum.case simp_thms)
  moreover from lit obtain res where r: "global_search q df = Inr res"
    using global_search_returns re_compile_literal by blast
  ultimately show ?thesis
    using global_search_rows [OF r] assms(1) by auto
qed

theorem nan_query_retains_missing_witness:
  "[Str ''Pizza Palace'', Num 500, NaN] \<in> set (rows sample_frame) \<and>
   (''City'', Object) \<in> set (columns sample_frame) \<and>
   map_of (row_series sample_frame [Str ''Pizza Palace'', Num 500, NaN]) ''City'' = Some NaN \<and>
   sublist (lower ''NaN'') ''nan'' \<and>
   (\<exists>res. global_search ''NaN'' sample_frame = Inr res \<and>
          [Str ''Pizza Palace'', Num 500, NaN] \<in> set (rows res))"
proof -
  have h1: "[Str ''Pizza Palace'', Num 500, NaN] \<in> set (rows sample_frame)"
    by (simp add: sample_frame_def)
  have h2: "(''City'', Object) \<in> set (columns sample_frame)"
    by (simp add: sample_frame_def)
  have h3: "map_of (row_series sample_frame [Str ''Pizza Palace'', Num 500, NaN]) ''City''
            = Some NaN"
    by (simp add: sample_frame_def row_series_def column_names_def)
  have h4: "sublist (lower ''NaN'') ''nan''"
    by code_simp
  from nan_query_retains_missing [OF h1 h2 h3 h4] h1 h2 h3 h4 show ?thesis
    by blast
qed

text \<open>
  C6: with a selector other than \<^verbatim>\<open>All\<close> and the serving-capacity column in the
  table, the filter keeps exactly the rows whose serving-capacity value has the selector
  as its string form, an exact and case-sensitive comparison (the selector \<^verbatim>\<open>500\<close> does
  not keep a row valued 5000); with the selector \<^verbatim>\<open>All\<close>, or without the column, the
  table is returned as it is.
\<close>

theorem capacity_filter_exact:
  "(opt \<noteq> ''All'' \<and> SERVING_CAP_COL \<in> set (column_names df) \<longrightarrow>
      columns (capacity_filter opt df) = columns df \<and>
      rows (capacity_filter opt df) =
        filter (\<lambda>cells. \<exists>v. map_of (row_series df cells) SERVING_CAP_COL = Some v \<and>
                             py_str v = opt) (rows df))
   \<and> (opt = ''All'' \<or> SERVING_CAP_COL \<notin> set (column_names df) \<longrightarrow>
        capacity_filter opt df = df)"
  by (auto simp: capacity_filter_def intro!: filter_cong split: option.splits)

theorem capacity_filter_exact_witness:
  "SERVING_CAP_COL \<in> set (column_names sample_frame) \<and>
   rows (capacity_filter ''500'' sample_frame) =
     [[Str ''Pizza Palace'', Num 500, NaN], [Str ''Acme Foods'', Num 500, Str ''Goa'']] \<and>
   capacity_filter ''All'' sample_frame = sample_frame \<and>
   capacity_filter ''500'' (numeric_frame\<lparr>columns := [(''Capacity'', Int64)]\<rparr>) =
     numeric_frame\<lparr>columns := [(''Capacity'', Int64)]\<rparr>"
proof -
  have h: "SERVING_CAP_COL \<in> set (column_names sample_frame)"
    by (simp add: sample_frame_def column_names_def SERVING_CAP_COL_def)
  have n: "SERVING_CAP_COL \<notin> set (column_names (numeric_frame\<lparr>columns := [(''Capacity'', Int64)]\<rparr>))"
    by (simp add: column_names_def SERVING_CAP_COL_def)
  have ev: "filter (\<lambda>cells. \<exists>v. map_of (row_series sample_frame cells) SERVING_CAP_COL = Some v \<and>
                             py_str v = ''500'') (rows sample_frame) =
     [[Str ''Pizza Palace'', Num 500, NaN], [Str ''Acme Foods'', Num 500, Str ''Goa'']]"
  proof -
    have a: "py_str (Num 500) = ''500''" by code_simp
    have b: "py_str (Num 5000) \<noteq> ''500''" by code_simp
    show ?thesis
      by (simp add: sample_frame_def row_series_def column_names_def SERVING_CAP_COL_def a b
               del: py_str.simps)
  qed
  from capacity_filter_exact [of "''500''" sample_frame]
       capacity_filter_exact [of "''All''" sample_frame]
       capacity_filter_exact [of "''500''" "numeric_frame\<lparr>columns := [(''Capacity'', Int64)]\<rparr>"]
       h n ev
  show ?thesis by simp
qed




section \<open>Properties of the script\<close>

text \<open>
  C1: the claim is that a missing column is never fatal, the vendor-name column in
  particular. Line 188 reads \<^verbatim>\<open>df[VENDOR_NAME_COL]\<close> without the check that lines 207
  and 251 make for the serving-capacity column and that \<^verbatim>\<open>safe_get\<close> makes for every
  field: on a table without the column the run ends in KeyError before anything is
  shown.
\<close>

theorem dashboard_without_vendor_name:
  "dashboard no_vendor_name_frame (basic_controls (Str ''All Vendors''))
     = Inl (KeyError ''Vendor Name'')"
  by (simp add: dashboard_def vendor_list_def get_column_def column_names_def
        no_vendor_name_frame_def VENDOR_NAME_COL_def)

lemma filter_first_match:
  assumes "i < length xs" and "P (xs ! i)" and "\<forall>j<i. \<not> P (xs ! j)"
  shows "\<exists>rest. filter P xs = xs ! i # rest"
proof -
  have "xs = take i xs @ xs ! i # drop (Suc i) xs"
    using assms(1) by (rule id_take_nth_drop)
  then have "filter P xs = filter P (take i xs) @ filter P (xs ! i # drop (Suc i) xs)"
    by (metis filter_append)
  moreover have "filter P (take i xs) = []"
    using assms(1,3) by (auto simp: filter_empty_conv in_set_conv_nth)
  ultimately show ?thesis using assms(2) by simp
qed

lemma vendor_list_column:
  "vendor_list df = Inr vs \<Longrightarrow> VENDOR_NAME_COL \<in> set (column_names df)"
  by (auto simp: vendor_list_def get_column_def split: if_splits sum.splits)

text \<open>
  C8: in basic mode with a selected vendor other than \<^verbatim>\<open>All Vendors\<close>, on a table
  that has the vendor-name column (line 188 has returned): when no row has the selected
  name, the run shows the no-data warning and raises nothing; otherwise the record shown
  is the one extracted from the first row, in table order, whose vendor name equals the
  selected one.
\<close>

theorem basic_mode_first_match:
  assumes "\<not> show_advanced ui"
    and "selected_vendor ui \<noteq> Str ''All Vendors''"
    and "vendor_list df = Inr vendors"
  shows "(\<not> list_ex (vendor_matches df (selected_vendor ui)) (rows df) \<longrightarrow>
            dashboard df ui = Inr NoData) \<and>
         (\<forall>i < length (rows df).
            vendor_matches df (selected_vendor ui) (rows df ! i) \<and>
            (\<forall>j<i. \<not> vendor_matches df (selected_vendor ui) (rows df ! j)) \<longrightarrow>
            dashboard df ui =
              (case extract_vendor_info (row_series df (rows df ! i)) of
                 Inl e \<Rightarrow> Inl e
               | Inr info \<Rightarrow> Inr (VendorCard info)))"
proof -
  let ?P = "vendor_matches df (selected_vendor ui)"
  have d: "dashboard df ui = basic_mode df (selected_vendor ui)"
    using assms(1,3) by (simp add: dashboard_def)
  have col: "VENDOR_NAME_COL \<in> set (column_names df)"
    by (rule vendor_list_column [OF assms(3)])
  have none: "dashboard df ui = Inr NoData" if "\<not> list_ex ?P (rows df)"
  proof -
    from that have "filter ?P (rows df) = []"
      by (simp add: filter_empty_conv list_ex_iff)
    then show ?thesis
      using assms(2) col by (simp add: d basic_mode_def)
  qed
  have some: "dashboard df ui =
      (case extract_vendor_info (row_series df (rows df ! i)) of
         Inl e \<Rightarrow> Inl e | Inr info \<Rightarrow> Inr (VendorCard info))"
    if "i < length (rows df)" "?P (rows df ! i)" "\<forall>j<i. \<not> ?P (rows df ! j)" for i
  proof -
    from filter_first_match [OF that] obtain rest
      where "filter ?P (rows df) = rows df ! i # rest" ..
    then show ?thesis
      using assms(2) col by (simp add: d basic_mode_def)
  qed
  from none some show ?thesis by blast
qed

theorem basic_mode_first_match_witness:
  "\<not> show_advanced (basic_controls (Str ''Acme Foods'')) \<and>
   vendor_list sample_frame = Inr [Str ''Acme Foods'', Str ''Pizza Palace''] \<and>
   dashboard sample_frame (basic_controls (Str ''Acme Foods'')) =
     (case extract_vendor_info
             (row_series sample_frame [Str ''Acme Foods'', Num 5000, Str ''Pune'']) of
        Inl e \<Rightarrow> Inl e
      | Inr info \<Rightarrow> Inr (VendorCard info)) \<and>
   dashboard sample_frame (basic_controls (Str ''Nobody'')) = Inr NoData"
proof -
  have v: "vendor_list sample_frame = Inr [Str ''Acme Foods'', Str ''Pizza Palace'']"
    by code_simp
  have a: "\<not> show_advanced (basic_controls c)" for c
    by (simp add: basic_controls_def)
  have sel: "selected_vendor (basic_controls c) = c" for c
    by (simp add: basic_controls_def)
  have n1: "selected_vendor (basic_controls (Str ''Acme Foods'')) \<noteq> Str ''All Vendors''"
    by (simp add: sel)
  have n2: "selected_vendor (basic_controls (Str ''Nobody'')) \<noteq> Str ''All Vendors''"
    by (simp add: sel)
  have r: "rows sample_frame ! 1 = [Str ''Acme Foods'', Num 5000, Str ''Pune'']"
      "length (rows sample_frame) = 3"
    by (simp_all add: sample_frame_def)
  have m1: "vendor_matches sample_frame (Str ''Acme Foods'') (rows sample_frame ! 1)"
    by code_simp
  have m0: "\<not> vendor_matches sample_frame (Str ''Acme Foods'') (rows sample_frame ! 0)"
    by code_simp
  have none: "\<not> list_ex (vendor_matches sample_frame (Str ''Nobody'')) (rows sample_frame)"
    by code_simp
  have first: "\<forall>j<1. \<not> vendor_matches sample_frame (Str ''Acme Foods'') (rows sample_frame ! j)"
    using m0 by simp
  from basic_mode_first_match [OF a n1 v]
  have "\<forall>i < length (rows sample_frame).
          vendor_matches sample_frame (Str ''Acme Foods'') (rows sample_frame ! i) \<and>
          (\<forall>j<i. \<not> vendor_matches sample_frame (Str ''Acme Foods'') (rows sample_frame ! j)) \<longrightarrow>
          dashboard sample_frame (basic_controls (Str ''Acme Foods'')) =
            (case extract_vendor_info (row_series sample_frame (rows sample_frame ! i)) of
               Inl e \<Rightarrow> Inl e
             | Inr info \<Rightarrow> Inr (VendorCard info))"
    unfolding sel by (rule conjunct2)
  from this [THEN spec, of 1] m1 first r
  have "dashboard sample_frame (basic_controls (Str ''Acme Foods'')) =
     (case extract_vendor_info
             (row_series sample_frame [Str ''Acme Foods'', Num 5000, Str ''Pune'']) of
        Inl e \<Rightarrow> Inl e
      | Inr info \<Rightarrow> Inr (VendorCard info))"
    by simp
  moreover from basic_mode_first_match [OF a n2 v] none
  have "dashboard sample_frame (basic_controls (Str ''Nobody'')) = Inr NoData"
    by (simp add: sel)
  ultimately show ?thesis using v a by simp
qed

end
